theory Spec2Isabelle
  imports Complex_Main
begin

section \<open>The zone crossing tracker of detect.py\<close>

text \<open>
  The loop of \<^verbatim>\<open>run\<close> keeps three variables between frames:
  \<^verbatim>\<open>enter_coordinates\<close>, \<^verbatim>\<open>exit_coordinates\<close> (each \<^verbatim>\<open>None\<close> or a pair) and
  \<^verbatim>\<open>noObjectCount\<close>. They are the fields of the record \<open>session\<close>. Coordinates are
  Python floats; the model takes them as reals, so the comparisons with 0.1, 0.9 and 0.6
  are exact and rounding is not modelled.
\<close>

type_synonym point = "real \<times> real"

record session =
  enter_coordinates :: "point option"
  exit_coordinates :: "point option"
  noObjectCount :: int

text \<open>
  A row of \<^verbatim>\<open>det\<close>, as the tracker reads it: the normalised \<^verbatim>\<open>x, y, w, h\<close> of its
  box (lines 182 and 184). Only \<^verbatim>\<open>x\<close> and \<^verbatim>\<open>y\<close> are used afterwards.
\<close>

record detection =
  box_x :: real
  box_y :: real
  box_w :: real
  box_h :: real

type_synonym pystr = "nat list"

text \<open>A string literal of the source, as code points.\<close>

definition str :: "string \<Rightarrow> pystr" where
  "str cs = map of_char cs"

text \<open>
  One image of a batch: its detections and \<open>summary\<close>, the string \<^verbatim>\<open>s\<close> as it stands
  when line 212 hands it to the dispatch thread. A Python string is a list of code points.
\<close>

record frame =
  det :: "detection list"
  summary :: pystr

definition init_session :: session where
  "init_session = \<lparr>enter_coordinates = None, exit_coordinates = None, noObjectCount = 0\<rparr>"

text \<open>Lines 187 to 198: the body of the loop over the detections of one image.\<close>

definition track :: "session \<Rightarrow> detection \<Rightarrow> session" where
  "track st d =
     (if enter_coordinates st = None \<and> (0.1 \<le> box_x d \<and> box_x d \<le> 0.9)
      then st\<lparr>enter_coordinates := Some (box_x d, box_y d), noObjectCount := 0\<rparr>
      else st\<lparr>exit_coordinates := Some (box_x d, box_y d)\<rparr>)"

fun tracks :: "session \<Rightarrow> detection list \<Rightarrow> session" where
  "tracks st [] = st"
| "tracks st (d # ds) = tracks (track st d) ds"

text \<open>Line 201: the test that starts a dispatch.\<close>

definition crossing :: "session \<Rightarrow> bool" where
  "crossing st =
     (case enter_coordinates st of
        None \<Rightarrow> False
      | Some en \<Rightarrow>
          (case exit_coordinates st of
             None \<Rightarrow> False
           | Some ex \<Rightarrow> \<bar>fst ex - fst en\<bar> \<ge> 0.6))"

text \<open>
  Lines 169 to 214 for one image: the detections are visited in reversed order
  (\<^verbatim>\<open>reversed(det)\<close>), then the crossing test runs, inside \<^verbatim>\<open>if len(det)\<close>. The
  second component is \<open>Some s\<close> when a thread running \<^verbatim>\<open>send_request\<close> on the summary
  \<open>s\<close> is started.
\<close>

definition image :: "session \<Rightarrow> frame \<Rightarrow> session \<times> pystr option" where
  "image st f =
     (if det f \<noteq> []
      then (let st1 = tracks st (rev (det f))
            in if crossing st1
               then (st1\<lparr>enter_coordinates := None, exit_coordinates := None\<rparr>, Some (summary f))
               else (st1, None))
      else (st, None))"

fun images :: "session \<Rightarrow> frame list \<Rightarrow> session \<times> pystr list" where
  "images st [] = (st, [])"
| "images st (f # fs) =
     (case image st f of
        (st1, e) \<Rightarrow>
          (case images st1 fs of
             (st2, es) \<Rightarrow> (st2, (case e of None \<Rightarrow> [] | Some m \<Rightarrow> [m]) @ es)))"

text \<open>
  Lines 294 to 300, after the loop over the images of the batch: \<^verbatim>\<open>det\<close> is the last
  image's.
\<close>

definition gap :: "session \<Rightarrow> frame \<Rightarrow> session" where
  "gap st f =
     (if det f = []
      then (let st1 = st\<lparr>noObjectCount := noObjectCount st + 1\<rparr>
            in if noObjectCount st1 \<ge> 10 \<and> enter_coordinates st1 \<noteq> None
               then st1\<lparr>noObjectCount := 0, enter_coordinates := None, exit_coordinates := None\<rparr>
               else st1)
      else st)"

text \<open>
  One pass of the loop over the dataset (lines 130 to 300). \<^verbatim>\<open>pred\<close> has one entry for
  each image of the batch and a batch has at least one image, so \<^verbatim>\<open>pred\<close> is \<open>f # fs\<close>.
  A frame of the specification is a batch of one image, \<open>iteration st f []\<close>.
\<close>

definition iteration :: "session \<Rightarrow> frame \<Rightarrow> frame list \<Rightarrow> session \<times> pystr list" where
  "iteration st f fs =
     (case images st (f # fs) of (st1, es) \<Rightarrow> (gap st1 (last (f # fs)), es))"

fun run :: "session \<Rightarrow> (frame \<times> frame list) list \<Rightarrow> session" where
  "run st [] = st"
| "run st ((f, fs) # bs) = run (fst (iteration st f fs)) bs"

text \<open>The sessions in which line 201 would not fire.\<close>

definition no_pending :: "session \<Rightarrow> bool" where
  "no_pending st = (\<not> crossing st)"

text \<open>
  Two sessions with the same anchors, and the same counter unless no enter anchor is
  set.
\<close>

definition alike :: "session \<Rightarrow> session \<Rightarrow> bool" where
  "alike a b =
     (enter_coordinates a = enter_coordinates b \<and> exit_coordinates a = exit_coordinates b \<and>
      (enter_coordinates a = None \<or> noObjectCount a = noObjectCount b))"

section \<open>The dispatcher: \<^verbatim>\<open>remove_plural\<close> and \<^verbatim>\<open>send_request\<close>\<close>

datatype error = ValueError | TypeError | IndexError | ZeroDivisionError | RequestException

text \<open>
  The pattern of line 331 is \<^verbatim>\<open>\d:\s\d+x\d+\s\d+\s(.+?)(?=,)\<close>. It is a sequence of
  single characters of a class, greedy repetitions \<^verbatim>\<open>+\<close> of a class, one lazy captured
  repetition \<^verbatim>\<open>(.+?)\<close> and one lookahead. The classes: \<^verbatim>\<open>\d\<close>, \<^verbatim>\<open>\s\<close>, the dot (any
  code point but the newline) and a literal.

  On a \<^verbatim>\<open>str\<close> pattern \<^verbatim>\<open>\d\<close> is any Unicode decimal digit and \<^verbatim>\<open>\s\<close> any Unicode
  white space. The table of decimal digits belongs to the interpreter, not to the
  repository: it is the parameter \<open>Nd\<close> of the matcher. \<open>unicode_space\<close> lists the
  white space code points.
\<close>

datatype cls = Digit | Space | Dot | Lit nat

definition unicode_space :: "nat \<Rightarrow> bool" where
  "unicode_space c =
     ((9 \<le> c \<and> c \<le> 13) \<or> (28 \<le> c \<and> c \<le> 32) \<or> c = 133 \<or> c = 160 \<or> c = 5760 \<or>
      (8192 \<le> c \<and> c \<le> 8202) \<or> c = 8232 \<or> c = 8233 \<or> c = 8239 \<or> c = 8287 \<or> c = 12288)"

text \<open>The decimal digits of ASCII, which every table \<open>Nd\<close> holds.\<close>

definition ascii_decimal :: "nat \<Rightarrow> bool" where
  "ascii_decimal c = (48 \<le> c \<and> c \<le> 57)"

fun in_cls :: "(nat \<Rightarrow> bool) \<Rightarrow> cls \<Rightarrow> nat \<Rightarrow> bool" where
  "in_cls Nd Digit c = Nd c"
| "in_cls Nd Space c = unicode_space c"
| "in_cls Nd Dot c = (c \<noteq> 10)"
| "in_cls Nd (Lit a) c = (c = a)"

datatype atom = One cls | Plus cls | LazyGroup cls | Ahead cls

text \<open>
  The backtracking of the matcher, as lists in the order in which it tries: the greedy
  \<^verbatim>\<open>+\<close> gives the rests of the text after its runs, longest run first; the lazy one
  gives its captured runs with their rests, shortest first.
\<close>

fun plus_rests :: "(nat \<Rightarrow> bool) \<Rightarrow> pystr \<Rightarrow> pystr list" where
  "plus_rests P [] = []"
| "plus_rests P (c # cs) = (if P c then plus_rests P cs @ [cs] else [])"

fun lazy_splits :: "(nat \<Rightarrow> bool) \<Rightarrow> pystr \<Rightarrow> (pystr \<times> pystr) list" where
  "lazy_splits P [] = []"
| "lazy_splits P (c # cs) =
     (if P c then ([c], cs) # map (\<lambda>(p, r). (c # p, r)) (lazy_splits P cs) else [])"

text \<open>
  \<open>match_here Nd as t g\<close>: the ways the atoms \<open>as\<close> match at the start of \<open>t\<close>, each
  given by its value of group 1 (\<open>g\<close> so far), first choice first.
\<close>

fun match_here :: "(nat \<Rightarrow> bool) \<Rightarrow> atom list \<Rightarrow> pystr \<Rightarrow> pystr option \<Rightarrow> pystr option list" where
  "match_here Nd [] t g = [g]"
| "match_here Nd (One c # as) t g =
     (case t of [] \<Rightarrow> [] | a # r \<Rightarrow> if in_cls Nd c a then match_here Nd as r g else [])"
| "match_here Nd (Plus c # as) t g =
     concat (map (\<lambda>r. match_here Nd as r g) (plus_rests (in_cls Nd c) t))"
| "match_here Nd (LazyGroup c # as) t g =
     concat (map (\<lambda>(p, r). match_here Nd as r (Some p)) (lazy_splits (in_cls Nd c) t))"
| "match_here Nd (Ahead c # as) t g =
     (case t of [] \<Rightarrow> [] | a # r \<Rightarrow> if in_cls Nd c a then match_here Nd as t g else [])"

text \<open>
  \<^verbatim>\<open>re.search\<close>: the first match at the leftmost position that has one. \<open>None\<close> is
  Python's \<^verbatim>\<open>None\<close>; \<open>Some g\<close> is a match object whose \<^verbatim>\<open>group(1)\<close> is \<open>g\<close>.
\<close>

fun re_search :: "(nat \<Rightarrow> bool) \<Rightarrow> atom list \<Rightarrow> pystr \<Rightarrow> pystr option option" where
  "re_search Nd as [] = (case match_here Nd as [] None of [] \<Rightarrow> None | g # _ \<Rightarrow> Some g)"
| "re_search Nd as (c # cs) =
     (case match_here Nd as (c # cs) None of [] \<Rightarrow> re_search Nd as cs | g # _ \<Rightarrow> Some g)"

definition pattern :: "atom list" where
  "pattern =
     [One Digit, One (Lit 58), One Space, Plus Digit, One (Lit 120), Plus Digit, One Space,
      Plus Digit, One Space, LazyGroup Dot, Ahead (Lit 44)]"

text \<open>
  Lines 311 to 328. The first two names of \<^verbatim>\<open>items_to_check\<close> hold the code points
  220 and 287, which are not ASCII.
\<close>

definition items_to_check :: "pystr list" where
  "items_to_check =
     [220 # str ''lker Salty Pretzels'',
      str ''Do'' @ [287] @ str ''adan Sage 20s'',
      str ''Capri-Sun Safari Fruits'']"

definition endswith :: "pystr \<Rightarrow> pystr \<Rightarrow> bool" where
  "endswith word suffix =
     (length suffix \<le> length word \<and> drop (length word - length suffix) word = suffix)"

text \<open>
  The value of the local variable \<^verbatim>\<open>word\<close> when \<^verbatim>\<open>remove_plural\<close> ends;
  \<^verbatim>\<open>word[:-1]\<close> is \<open>butlast word\<close>.
\<close>

definition remove_plural_word :: "pystr \<Rightarrow> pystr" where
  "remove_plural_word word =
     (if word \<in> set items_to_check
      then (if endswith word (str ''ss'') then butlast word else word)
      else butlast word)"

text \<open>
  The function has no \<^verbatim>\<open>return\<close>: a call evaluates to \<^verbatim>\<open>None\<close>, here \<open>None\<close>. A
  \<^verbatim>\<open>str\<close> is immutable, so the caller's string is what it was.
\<close>

definition remove_plural :: "pystr \<Rightarrow> pystr option" where
  "remove_plural word = (let word = remove_plural_word word in None)"

text \<open>
  Lines 330 to 349. What \<^verbatim>\<open>send_request\<close> does is the list of its prints and posts, in
  order, with the exception that ends it, if any. \<open>response\<close> is what
  \<^verbatim>\<open>requests.post\<close> gives: \<open>None\<close> when it raises, else the status code and the text.
\<close>

record data =
  cashierId :: int
  itemName :: pystr

record response =
  status_code :: int
  response_text :: pystr

datatype effect = Print pystr | Post pystr data "(pystr \<times> pystr) list"

text \<open>\<^verbatim>\<open>str\<close> of an integer.\<close>

fun digits :: "nat \<Rightarrow> pystr" where
  "digits n = (if n < 10 then [48 + n] else digits (n div 10) @ [48 + n mod 10])"

definition str_int :: "int \<Rightarrow> pystr" where
  "str_int i = (if i < 0 then 45 # digits (nat (- i)) else digits (nat i))"

definition send_request ::
  "(nat \<Rightarrow> bool) \<Rightarrow> pystr \<Rightarrow> (pystr \<times> pystr) list \<Rightarrow> int \<Rightarrow> pystr \<Rightarrow> response option \<Rightarrow>
     effect list \<times> error option" where
  "send_request Nd url headers cashier_id s response =
     (case re_search Nd pattern s of
        None \<Rightarrow> ([], None)
      | Some None \<Rightarrow> ([], Some TypeError)
      | Some (Some result) \<Rightarrow>
          (let unused = remove_plural result;
               announced = [Print (result @ str '' is detected. Sending request...'')];
               data = \<lparr>cashierId = cashier_id, itemName = result\<rparr>
           in case response of
                None \<Rightarrow> (announced @ [Post url data headers], Some RequestException)
              | Some r \<Rightarrow>
                  (announced @ [Post url data headers] @
                     [Print (if status_code r = 200
                             then str ''Stock is decreased successfully.''
                             else str ''Status code: '' @ str_int (status_code r) @
                                  str '' Message: '' @ response_text r)],
                   None)))"

section \<open>The resolver: \<^verbatim>\<open>PredictedProducts\<close>, \<^verbatim>\<open>findMaxTwoClass\<close>, \<^verbatim>\<open>productDetection\<close>\<close>

text \<open>
  A confidence is a Python float, an IEEE double. The model takes a double as the real
  number it stands for, and every operation of the source on floats as the exact
  operation followed by \<open>round64\<close>, the rounding to the nearest double, ties to the
  even significand: \<open>p\<close> is the number of binary places of the doubles next to the
  value, 1074 at most (the subnormal range). Values of magnitude \<open>2 ^ 1024\<close> and more,
  where Python has \<^verbatim>\<open>inf\<close>, are outside the model.
\<close>

fun bitlen :: "nat \<Rightarrow> nat" where
  "bitlen n = (if n = 0 then 0 else Suc (bitlen (n div 2)))"

definition round_half_even :: "real \<Rightarrow> int" where
  "round_half_even q =
     (let f = \<lfloor>q\<rfloor>; r = q - of_int f
      in if r < 1 / 2 then f else if 1 / 2 < r then f + 1 else if even f then f else f + 1)"

definition scale2 :: "real \<Rightarrow> int \<Rightarrow> real" where
  "scale2 a p = (if 0 \<le> p then a * 2 ^ nat p else a / 2 ^ nat (- p))"

definition round64 :: "real \<Rightarrow> real" where
  "round64 v =
     (let a = \<bar>v\<bar>;
          p = min 1074
                (if 1 \<le> a then 53 - int (bitlen (nat \<lfloor>a\<rfloor>))
                 else 52 + int (bitlen (nat (\<lceil>1 / a\<rceil> - 1))))
      in sgn v * scale2 (of_int (round_half_even (scale2 a p))) (- p))"

record PredictedProducts =
  productName :: pystr
  count :: int
  totalPred :: real

text \<open>The method \<^verbatim>\<open>set\<close> of the class (lines 357 to 359).\<close>

definition set_product :: "PredictedProducts \<Rightarrow> int \<Rightarrow> real \<Rightarrow> PredictedProducts" where
  "set_product p c t = p\<lparr>count := count p + c, totalPred := round64 (totalPred p + t)\<rparr>"

definition getPred :: "PredictedProducts \<Rightarrow> error + (pystr \<times> real)" where
  "getPred p =
     (if count p = 0 then Inl ZeroDivisionError
      else Inr (productName p, round64 (totalPred p / real_of_int (count p))))"

fun findProductIndex_from :: "int \<Rightarrow> PredictedProducts list \<Rightarrow> pystr \<Rightarrow> int" where
  "findProductIndex_from i [] name = - 1"
| "findProductIndex_from i (p # ps) name =
     (if productName p = name then i else findProductIndex_from (i + 1) ps name)"

definition findProductIndex :: "PredictedProducts list \<Rightarrow> pystr \<Rightarrow> int" where
  "findProductIndex predictedProducts name = findProductIndex_from 0 predictedProducts name"

text \<open>
  The loop of lines 385 to 392, from index \<open>i\<close> on, over the four variables
  \<^verbatim>\<open>maxIndex1_se\<close>, \<^verbatim>\<open>maxIndex2_se\<close>, \<^verbatim>\<open>maxCount1_se\<close>, \<^verbatim>\<open>maxCount2_se\<close>.
\<close>

fun max_two_loop ::
  "nat \<Rightarrow> PredictedProducts list \<Rightarrow> nat \<times> nat \<times> int \<times> int \<Rightarrow> nat \<times> nat \<times> int \<times> int" where
  "max_two_loop i [] acc = acc"
| "max_two_loop i (p # ps) (maxIndex1_se, maxIndex2_se, maxCount1_se, maxCount2_se) =
     (if count p > maxCount1_se
      then max_two_loop (Suc i) ps (i, maxIndex2_se, count p, maxCount2_se)
      else if count p > maxCount2_se
      then max_two_loop (Suc i) ps (maxIndex1_se, i, maxCount1_se, count p)
      else max_two_loop (Suc i) ps (maxIndex1_se, maxIndex2_se, maxCount1_se, maxCount2_se))"

text \<open>Line 382: the early return of \<^verbatim>\<open>findMaxTwoClass\<close>.\<close>

definition short_circuit :: "PredictedProducts list \<Rightarrow> bool" where
  "short_circuit predictedProducts = (length predictedProducts = 2)"

definition findMaxTwoClass :: "PredictedProducts list \<Rightarrow> nat \<times> nat" where
  "findMaxTwoClass predictedProducts =
     (if short_circuit predictedProducts then (0, 1)
      else (case max_two_loop 0 predictedProducts (0, 0, 0, 0) of
              (maxIndex1_se, maxIndex2_se, _, _) \<Rightarrow> (maxIndex1_se, maxIndex2_se)))"

text \<open>\<^verbatim>\<open>item.split(' ')\<close> and \<^verbatim>\<open>' '.join(...)\<close>; 32 is the space.\<close>

fun split_sp :: "pystr \<Rightarrow> pystr list" where
  "split_sp [] = [[]]"
| "split_sp (c # cs) =
     (if c = 32 then [] # split_sp cs
      else (case split_sp cs of [] \<Rightarrow> [[c]] | p # ps \<Rightarrow> (c # p) # ps))"

fun join_sp :: "pystr list \<Rightarrow> pystr" where
  "join_sp [] = []"
| "join_sp [p] = p"
| "join_sp (p # q # ps) = p @ [32] @ join_sp (q # ps)"

text \<open>
  \<^verbatim>\<open>float\<close> of a string is the parameter \<open>fl\<close> of the resolver, \<open>None\<close> where Python
  raises \<^verbatim>\<open>ValueError\<close>. \<open>float_decimal\<close> is \<^verbatim>\<open>float\<close> on the plain decimal numerals,
  which are what \<^verbatim>\<open>{conf:.2f}\<close> of line 249 writes: the double nearest to the decimal. It
  is \<open>None\<close> on every other string, also on those that Python's \<^verbatim>\<open>float\<close> reads (a sign,
  an exponent, \<^verbatim>\<open>inf\<close>, \<^verbatim>\<open>nan\<close>, underscores, white space around the numeral).
\<close>

fun digits_val :: "nat \<Rightarrow> pystr \<Rightarrow> nat" where
  "digits_val acc [] = acc"
| "digits_val acc (c # cs) = digits_val (10 * acc + (c - 48)) cs"

definition float_decimal :: "pystr \<Rightarrow> real option" where
  "float_decimal t =
     (let ip = takeWhile ascii_decimal t; r = dropWhile ascii_decimal t
      in case r of
           [] \<Rightarrow> if ip = [] then None else Some (round64 (real (digits_val 0 ip)))
         | c # fp \<Rightarrow>
             if c = 46 \<and> list_all ascii_decimal fp \<and> \<not> (ip = [] \<and> fp = [])
             then Some (round64
                          (real (digits_val 0 ip) + real (digits_val 0 fp) / 10 ^ length fp))
             else None)"

text \<open>Lines 404 to 410: the labels whose confidence is at least 0.50.\<close>

fun select_labels ::
  "(pystr \<Rightarrow> real option) \<Rightarrow> pystr list \<Rightarrow> error + (pystr list \<times> pystr list)" where
  "select_labels fl [] = Inr ([], [])"
| "select_labels fl (item # items) =
     (let parts_se = split_sp item;
          product_se = join_sp (butlast parts_se);
          prediction_se = last parts_se
      in case fl prediction_se of
           None \<Rightarrow> Inl ValueError
         | Some v \<Rightarrow>
             (case select_labels fl items of
                Inl e \<Rightarrow> Inl e
              | Inr (products_se, predictions_se) \<Rightarrow>
                  if v \<ge> 0.50
                  then Inr (product_se # products_se, prediction_se # predictions_se)
                  else Inr (products_se, predictions_se)))"

text \<open>Lines 417 to 423: one \<^verbatim>\<open>PredictedProducts\<close> for each name, in order of first sight.\<close>

fun aggregate ::
  "(pystr \<Rightarrow> real option) \<Rightarrow> PredictedProducts list \<Rightarrow> (pystr \<times> pystr) list \<Rightarrow>
     error + PredictedProducts list" where
  "aggregate fl predUniqueCls [] = Inr predUniqueCls"
| "aggregate fl predUniqueCls ((name, p) # rest) =
     (case fl p of
        None \<Rightarrow> Inl ValueError
      | Some v \<Rightarrow>
          (let index = findProductIndex predUniqueCls name
           in if index = - 1
              then aggregate fl
                     (predUniqueCls @ [\<lparr>productName = name, count = 1, totalPred = v\<rparr>]) rest
              else aggregate fl
                     (predUniqueCls[nat index := set_product (predUniqueCls ! nat index) 1 v])
                     rest))"

text \<open>
  \<^verbatim>\<open>productDetection\<close> has no \<^verbatim>\<open>return\<close> and its prints are commented out: what it
  computes is in its local variables when it ends, and they are what
  \<open>productDetection_locals\<close> gives. \<open>maxIndex_se\<close> is the pair
  \<^verbatim>\<open>maxIndex1_se, maxIndex2_se\<close> and \<open>maxName_se\<close> the name the resolver settles on;
  each is \<open>None\<close> when the variable is not bound.
\<close>

record locals =
  products_se :: "pystr list"
  predictions_se :: "pystr list"
  predUniqueCls :: "PredictedProducts list"
  maxIndex_se :: "(nat \<times> nat) option"
  maxName_se :: "pystr option"

definition getitem :: "'a list \<Rightarrow> nat \<Rightarrow> error + 'a" where
  "getitem xs i = (if i < length xs then Inr (xs ! i) else Inl IndexError)"

text \<open>Lines 430 to 445.\<close>

definition decide ::
  "PredictedProducts list \<Rightarrow> error + ((nat \<times> nat) option \<times> pystr option)" where
  "decide cls =
     (if length cls > 1
      then (case findMaxTwoClass cls of
              (maxIndex1_se, maxIndex2_se) \<Rightarrow>
                (case getitem cls maxIndex1_se of
                   Inl e \<Rightarrow> Inl e
                 | Inr c1 \<Rightarrow>
                     (case getitem cls maxIndex2_se of
                        Inl e \<Rightarrow> Inl e
                      | Inr c2 \<Rightarrow>
                          if count c1 - count c2 > 3
                          then Inr (Some (maxIndex1_se, maxIndex2_se), None)
                          else (case getPred c1 of
                                  Inl e \<Rightarrow> Inl e
                                | Inr (maxName1_se, maxPred1_se) \<Rightarrow>
                                    (case getPred c2 of
                                       Inl e \<Rightarrow> Inl e
                                     | Inr (maxName2_se, maxPred2_se) \<Rightarrow>
                                         (let maxPred_se = max maxPred1_se maxPred2_se
                                          in Inr (Some (maxIndex1_se, maxIndex2_se),
                                                  Some (if maxPred_se = maxPred1_se
                                                        then maxName1_se
                                                        else maxName2_se))))))))
      else Inr (None, None))"

definition productDetection_locals ::
  "(pystr \<Rightarrow> real option) \<Rightarrow> pystr list \<Rightarrow> error + locals" where
  "productDetection_locals fl predictedLabels_se =
     (case select_labels fl predictedLabels_se of
        Inl e \<Rightarrow> Inl e
      | Inr (products, predictions) \<Rightarrow>
          (case aggregate fl [] (zip products predictions) of
             Inl e \<Rightarrow> Inl e
           | Inr cls \<Rightarrow>
               (case decide cls of
                  Inl e \<Rightarrow> Inl e
                | Inr (ix, nm) \<Rightarrow>
                    Inr \<lparr>products_se = products, predictions_se = predictions,
                         predUniqueCls = cls, maxIndex_se = ix, maxName_se = nm\<rparr>)))"

text \<open>
  The value of a call of \<^verbatim>\<open>productDetection\<close>: the function ends without a
  \<^verbatim>\<open>return\<close>, so the call gives \<^verbatim>\<open>None\<close>, here \<open>Inr None\<close>, unless an exception ends it.
\<close>

definition productDetection ::
  "(pystr \<Rightarrow> real option) \<Rightarrow> pystr list \<Rightarrow> error + pystr option" where
  "productDetection fl predictedLabels_se =
     (case productDetection_locals fl predictedLabels_se of
        Inl e \<Rightarrow> Inl e
      | Inr final \<Rightarrow> Inr None)"

section \<open>Properties of the tracker\<close>

lemma track_enter_kept:
  "enter_coordinates st \<noteq> None \<Longrightarrow>
     enter_coordinates (track st d) = enter_coordinates st \<and>
     noObjectCount (track st d) = noObjectCount st"
  by (simp add: track_def)

lemma tracks_enter_kept:
  "enter_coordinates st \<noteq> None \<Longrightarrow>
     enter_coordinates (tracks st ds) = enter_coordinates st \<and>
     noObjectCount (tracks st ds) = noObjectCount st"
proof (induction ds arbitrary: st)
  case Nil
  show ?case by simp
next
  case (Cons d ds)
  have "enter_coordinates (track st d) \<noteq> None"
    using Cons.prems track_enter_kept by simp
  from Cons.IH [OF this] show ?case
    using Cons.prems track_enter_kept by simp
qed

lemma tracks_counter:
  "noObjectCount (tracks st ds) =
     (if enter_coordinates (tracks st ds) = enter_coordinates st then noObjectCount st else 0)"
proof (induction ds arbitrary: st)
  case Nil
  show ?case by simp
next
  case (Cons d ds)
  show ?case
  proof (cases "enter_coordinates st = None \<and> 0.1 \<le> box_x d \<and> box_x d \<le> 0.9")
    case True
    then have t: "track st d = st\<lparr>enter_coordinates := Some (box_x d, box_y d), noObjectCount := 0\<rparr>"
      by (simp add: track_def)
    have "enter_coordinates (track st d) \<noteq> None" by (simp add: t)
    from tracks_enter_kept [OF this] show ?thesis
      using True by (simp add: t)
  next
    case False
    then have t: "track st d = st\<lparr>exit_coordinates := Some (box_x d, box_y d)\<rparr>"
      by (auto simp add: track_def)
    show ?thesis using Cons.IH [of "track st d"] by (simp add: t)
  qed
qed

lemma image_no_pending:
  assumes "no_pending st"
  shows "no_pending (fst (image st f))"
proof (cases "det f = []")
  case True
  then show ?thesis using assms by (simp add: image_def)
next
  case False
  show ?thesis
  proof (cases "crossing (tracks st (rev (det f)))")
    case True
    then show ?thesis using False by (simp add: image_def no_pending_def crossing_def)
  next
    case False
    then show ?thesis using \<open>det f \<noteq> []\<close> by (simp add: image_def no_pending_def)
  qed
qed

lemma images_no_pending: "no_pending st \<Longrightarrow> no_pending (fst (images st fs))"
proof (induction fs arbitrary: st)
  case Nil
  then show ?case by simp
next
  case (Cons f fs)
  obtain st1 e where i: "image st f = (st1, e)" by (cases "image st f")
  have "no_pending st1" using image_no_pending [OF Cons.prems, of f] by (simp add: i)
  from Cons.IH [OF this] show ?case by (cases "images st1 fs") (simp add: i)
qed

lemma gap_nonempty: "det f \<noteq> [] \<Longrightarrow> gap st f = st"
  by (simp add: gap_def)

lemma gap_reset:
  "det f = [] \<Longrightarrow> 10 \<le> noObjectCount st + 1 \<Longrightarrow> enter_coordinates st \<noteq> None \<Longrightarrow>
     gap st f = st\<lparr>noObjectCount := 0, enter_coordinates := None, exit_coordinates := None\<rparr>"
  by (simp add: gap_def)

lemma gap_count:
  "det f = [] \<Longrightarrow> \<not> (10 \<le> noObjectCount st + 1 \<and> enter_coordinates st \<noteq> None) \<Longrightarrow>
     gap st f = st\<lparr>noObjectCount := noObjectCount st + 1\<rparr>"
  by (auto simp add: gap_def)

lemma crossing_counter: "crossing (st\<lparr>noObjectCount := n\<rparr>) = crossing st"
  by (simp add: crossing_def cong: option.case_cong)

lemma gap_no_pending:
  assumes "no_pending st"
  shows "no_pending (gap st f)"
proof (cases "det f = []")
  case False
  then show ?thesis using assms by (simp add: gap_nonempty)
next
  case True
  show ?thesis
  proof (cases "10 \<le> noObjectCount st + 1 \<and> enter_coordinates st \<noteq> None")
    case True
    then show ?thesis using \<open>det f = []\<close>
      by (simp add: gap_reset no_pending_def crossing_def)
  next
    case False
    show ?thesis using assms
      by (simp add: gap_count [OF \<open>det f = []\<close> False] no_pending_def crossing_counter)
  qed
qed

lemma iteration_no_pending:
  assumes "no_pending st"
  shows "no_pending (fst (iteration st f fs))"
proof -
  obtain st1 es where i: "images st (f # fs) = (st1, es)" by (cases "images st (f # fs)")
  have "no_pending st1" using images_no_pending [OF assms, of "f # fs"] by (simp only: i fst_conv)
  then have "no_pending (gap st1 (last (f # fs)))" by (rule gap_no_pending)
  then show ?thesis by (simp only: iteration_def i prod.case fst_conv)
qed

lemma run_no_pending: "no_pending st \<Longrightarrow> no_pending (run st bs)"
proof (induction bs arbitrary: st)
  case Nil
  then show ?case by simp
next
  case (Cons b bs)
  obtain f fs where b: "b = (f, fs)" by (cases b)
  show ?case using Cons.IH [OF iteration_no_pending [OF Cons.prems]] by (simp add: b)
qed

lemma init_no_pending: "no_pending init_session"
  by (simp add: no_pending_def crossing_def init_session_def)

lemma image_empty: "det f = [] \<Longrightarrow> image st f = (st, None)"
  by (simp add: image_def)

lemma image_fired:
  "det f \<noteq> [] \<Longrightarrow> crossing (tracks st (rev (det f))) \<Longrightarrow>
     image st f =
       (tracks st (rev (det f))\<lparr>enter_coordinates := None, exit_coordinates := None\<rparr>, Some (summary f))"
  by (simp add: image_def)

lemma image_quiet:
  "det f \<noteq> [] \<Longrightarrow> \<not> crossing (tracks st (rev (det f))) \<Longrightarrow>
     image st f = (tracks st (rev (det f)), None)"
  by (simp add: image_def)

lemma iteration_single:
  "iteration st f [] =
     (gap (fst (image st f)) f, (case snd (image st f) of None \<Rightarrow> [] | Some m \<Rightarrow> [m]))"
  by (cases "image st f") (simp add: iteration_def)

lemma crossing_iff:
  "crossing st =
     (\<exists>en ex. enter_coordinates st = Some en \<and> exit_coordinates st = Some ex \<and>
        0.6 \<le> \<bar>fst ex - fst en\<bar>)"
  by (cases "enter_coordinates st"; cases "exit_coordinates st") (simp_all add: crossing_def)

lemma fired_iff:
  assumes "no_pending st"
  shows "(snd (iteration st f []) \<noteq> []) = crossing (tracks st (rev (det f)))"
proof (cases "det f = []")
  case True
  then show ?thesis using assms by (simp add: iteration_single image_empty no_pending_def)
next
  case False
  then show ?thesis
    by (cases "crossing (tracks st (rev (det f)))")
       (simp_all add: iteration_single image_fired image_quiet)
qed

lemma fired_state:
  assumes "snd (iteration st f []) \<noteq> []"
  shows "fst (iteration st f []) =
           tracks st (rev (det f))\<lparr>enter_coordinates := None, exit_coordinates := None\<rparr>"
    and "snd (iteration st f []) = [summary f]"
proof -
  have ne: "det f \<noteq> []"
    using assms by (cases "det f = []") (simp_all add: iteration_single image_empty)
  have cr: "crossing (tracks st (rev (det f)))"
    using assms ne
    by (cases "crossing (tracks st (rev (det f)))") (simp_all add: iteration_single image_quiet)
  show "fst (iteration st f []) =
           tracks st (rev (det f))\<lparr>enter_coordinates := None, exit_coordinates := None\<rparr>"
    by (simp add: iteration_single image_fired [OF ne cr] gap_nonempty [OF ne])
  show "snd (iteration st f []) = [summary f]"
    by (simp add: iteration_single image_fired [OF ne cr])
qed

text \<open>
  C9. For every detection the tracker processes, \<^verbatim>\<open>enter_coordinates\<close> is assigned only
  when it is unset and the centre \<open>x\<close> of the box lies in [0.1, 0.9], it is assigned
  whenever that holds, and each such assignment sets \<^verbatim>\<open>noObjectCount\<close> to 0.
\<close>

theorem enter_assigned_in_zone_only:
  "(enter_coordinates (track st d) \<noteq> enter_coordinates st \<longrightarrow>
      enter_coordinates st = None \<and> 0.1 \<le> box_x d \<and> box_x d \<le> 0.9) \<and>
   (enter_coordinates st = None \<and> 0.1 \<le> box_x d \<and> box_x d \<le> 0.9 \<longrightarrow>
      enter_coordinates (track st d) = Some (box_x d, box_y d) \<and> noObjectCount (track st d) = 0)"
  by (simp add: track_def)

theorem enter_assigned_in_zone_only_witness:
  "enter_coordinates (track (init_session\<lparr>noObjectCount := 4\<rparr>) \<lparr>box_x = 0.2, box_y = 0.5, box_w = 0.1, box_h = 0.1\<rparr>)
     \<noteq> enter_coordinates (init_session\<lparr>noObjectCount := 4\<rparr>) \<and>
   enter_coordinates (init_session\<lparr>noObjectCount := 4\<rparr>) = None \<and>
   (0.1::real) \<le> 0.2 \<and> (0.2::real) \<le> 0.9 \<and>
   enter_coordinates (track (init_session\<lparr>noObjectCount := 4\<rparr>) \<lparr>box_x = 0.2, box_y = 0.5, box_w = 0.1, box_h = 0.1\<rparr>)
     = Some (0.2, 0.5) \<and>
   noObjectCount (track (init_session\<lparr>noObjectCount := 4\<rparr>) \<lparr>box_x = 0.2, box_y = 0.5, box_w = 0.1, box_h = 0.1\<rparr>) = 0"
  using enter_assigned_in_zone_only
    [of "init_session\<lparr>noObjectCount := 4\<rparr>" "\<lparr>box_x = 0.2, box_y = 0.5, box_w = 0.1, box_h = 0.1\<rparr>"]
  by (simp add: init_session_def)

text \<open>
  C8. The claim is that a detection arriving while \<^verbatim>\<open>enter_coordinates\<close> is unset never
  sets \<^verbatim>\<open>exit_coordinates\<close>. The \<^verbatim>\<open>else\<close> of line 194 also takes the detections whose
  \<open>x\<close> is outside [0.1, 0.9] while the session is idle: in the first session, a detection
  centred at \<open>x = 0.95\<close> sets \<^verbatim>\<open>exit_coordinates\<close> and leaves \<^verbatim>\<open>enter_coordinates\<close> unset.
\<close>

theorem exit_set_while_idle:
  "enter_coordinates init_session = None \<and>
   exit_coordinates (track init_session \<lparr>box_x = 0.95, box_y = 0.5, box_w = 0.1, box_h = 0.1\<rparr>) = Some (0.95, 0.5) \<and>
   enter_coordinates (track init_session \<lparr>box_x = 0.95, box_y = 0.5, box_w = 0.1, box_h = 0.1\<rparr>) = None"
  by (simp add: track_def init_session_def)

text \<open>
  C1. In every session the loop can reach from its first one, a frame (a batch of one
  image) starts a dispatch if and only if, after the frame's detections have been
  visited, both anchors are set and the absolute difference of their \<open>x\<close> is at least
  0.6; and when it does, both anchors are unset at the end of the frame.
\<close>

theorem crossing_fires_iff:
  "((snd (iteration (run init_session bs) f []) \<noteq> []) =
      (\<exists>en ex.
         enter_coordinates (tracks (run init_session bs) (rev (det f))) = Some en \<and>
         exit_coordinates (tracks (run init_session bs) (rev (det f))) = Some ex \<and>
         0.6 \<le> \<bar>fst ex - fst en\<bar>)) \<and>
   (snd (iteration (run init_session bs) f []) \<noteq> [] \<longrightarrow>
      enter_coordinates (fst (iteration (run init_session bs) f [])) = None \<and>
      exit_coordinates (fst (iteration (run init_session bs) f [])) = None)"
proof -
  have inv: "no_pending (run init_session bs)"
    using init_no_pending by (rule run_no_pending)
  show ?thesis
    using fired_iff [OF inv, of f] fired_state(1) [of "run init_session bs" f]
    by (simp add: crossing_iff)
qed

theorem crossing_fires_iff_witness:
  "snd (iteration (run init_session [(\<lparr>det = [\<lparr>box_x = 0.2, box_y = 0.5, box_w = 0.1, box_h = 0.1\<rparr>], summary = []\<rparr>, [])])
         \<lparr>det = [\<lparr>box_x = 0.85, box_y = 0.5, box_w = 0.1, box_h = 0.1\<rparr>], summary = []\<rparr> []) \<noteq> [] \<and>
   enter_coordinates
     (fst (iteration (run init_session [(\<lparr>det = [\<lparr>box_x = 0.2, box_y = 0.5, box_w = 0.1, box_h = 0.1\<rparr>], summary = []\<rparr>, [])])
         \<lparr>det = [\<lparr>box_x = 0.85, box_y = 0.5, box_w = 0.1, box_h = 0.1\<rparr>], summary = []\<rparr> [])) = None \<and>
   exit_coordinates
     (fst (iteration (run init_session [(\<lparr>det = [\<lparr>box_x = 0.2, box_y = 0.5, box_w = 0.1, box_h = 0.1\<rparr>], summary = []\<rparr>, [])])
         \<lparr>det = [\<lparr>box_x = 0.85, box_y = 0.5, box_w = 0.1, box_h = 0.1\<rparr>], summary = []\<rparr> [])) = None"
proof -
  have fired:
    "snd (iteration (run init_session [(\<lparr>det = [\<lparr>box_x = 0.2, box_y = 0.5, box_w = 0.1, box_h = 0.1\<rparr>], summary = []\<rparr>, [])])
         \<lparr>det = [\<lparr>box_x = 0.85, box_y = 0.5, box_w = 0.1, box_h = 0.1\<rparr>], summary = []\<rparr> []) \<noteq> []"
    by (simp add: iteration_def image_def gap_def track_def crossing_def init_session_def)
  show ?thesis
    using fired crossing_fires_iff
      [of "[(\<lparr>det = [\<lparr>box_x = 0.2, box_y = 0.5, box_w = 0.1, box_h = 0.1\<rparr>], summary = []\<rparr>, [])]"
          "\<lparr>det = [\<lparr>box_x = 0.85, box_y = 0.5, box_w = 0.1, box_h = 0.1\<rparr>], summary = []\<rparr>"]
    by blast
qed

lemma iteration_empty:
  assumes "det f = []"
  shows "iteration st f [] = (gap st f, [])"
  by (simp add: iteration_single image_empty [OF assms])

lemma iteration_counter_kept:
  assumes ne: "det f \<noteq> []"
    and same: "enter_coordinates (tracks st (rev (det f))) = enter_coordinates st"
  shows "noObjectCount (fst (iteration st f [])) = noObjectCount st"
proof -
  have c: "noObjectCount (tracks st (rev (det f))) = noObjectCount st"
    using tracks_counter [of st "rev (det f)"] same by simp
  show ?thesis
    by (cases "crossing (tracks st (rev (det f)))")
       (simp_all add: iteration_single image_fired [OF ne] image_quiet [OF ne] gap_nonempty [OF ne] c)
qed

text \<open>
  C4. A frame with no detection starts no dispatch and adds 1 to \<^verbatim>\<open>noObjectCount\<close>,
  unless the counter thereby reaches 10 or more while \<^verbatim>\<open>enter_coordinates\<close> is set: then
  both anchors are unset and the counter is 0. A frame with detections none of which
  assigns \<^verbatim>\<open>enter_coordinates\<close> leaves the counter as it was.
\<close>

theorem empty_frame_counter:
  "(det f = [] \<longrightarrow>
      iteration st f [] =
        (if 10 \<le> noObjectCount st + 1 \<and> enter_coordinates st \<noteq> None
         then st\<lparr>noObjectCount := 0, enter_coordinates := None, exit_coordinates := None\<rparr>
         else st\<lparr>noObjectCount := noObjectCount st + 1\<rparr>, [])) \<and>
   (det f \<noteq> [] \<and> enter_coordinates (tracks st (rev (det f))) = enter_coordinates st \<longrightarrow>
      noObjectCount (fst (iteration st f [])) = noObjectCount st)"
proof (intro conjI impI)
  assume e: "det f = []"
  show "iteration st f [] =
        (if 10 \<le> noObjectCount st + 1 \<and> enter_coordinates st \<noteq> None
         then st\<lparr>noObjectCount := 0, enter_coordinates := None, exit_coordinates := None\<rparr>
         else st\<lparr>noObjectCount := noObjectCount st + 1\<rparr>, [])"
  proof (cases "10 \<le> noObjectCount st + 1 \<and> enter_coordinates st \<noteq> None")
    case True
    then show ?thesis by (simp add: iteration_empty [OF e] gap_reset [OF e])
  next
    case False
    have "gap st f = st\<lparr>noObjectCount := noObjectCount st + 1\<rparr>"
      using e False by (rule gap_count)
    then show ?thesis using False by (simp only: iteration_empty [OF e] if_False)
  qed
next
  assume "det f \<noteq> [] \<and> enter_coordinates (tracks st (rev (det f))) = enter_coordinates st"
  then show "noObjectCount (fst (iteration st f [])) = noObjectCount st"
    using iteration_counter_kept by blast
qed

theorem empty_frame_counter_witness:
  "det \<lparr>det = [], summary = []\<rparr> = [] \<and>
   iteration \<lparr>enter_coordinates = Some (0.2, 0.5), exit_coordinates = Some (0.5, 0.5), noObjectCount = 9\<rparr>
       \<lparr>det = [], summary = []\<rparr> [] =
     (\<lparr>enter_coordinates = None, exit_coordinates = None, noObjectCount = 0\<rparr>, []) \<and>
   iteration \<lparr>enter_coordinates = Some (0.2, 0.5), exit_coordinates = None, noObjectCount = 3\<rparr>
       \<lparr>det = [], summary = []\<rparr> [] =
     (\<lparr>enter_coordinates = Some (0.2, 0.5), exit_coordinates = None, noObjectCount = 4\<rparr>, []) \<and>
   det \<lparr>det = [\<lparr>box_x = 0.5, box_y = 0.5, box_w = 0.1, box_h = 0.1\<rparr>], summary = []\<rparr> \<noteq> [] \<and>
   enter_coordinates
     (tracks \<lparr>enter_coordinates = Some (0.2, 0.5), exit_coordinates = None, noObjectCount = 3\<rparr>
        (rev (det \<lparr>det = [\<lparr>box_x = 0.5, box_y = 0.5, box_w = 0.1, box_h = 0.1\<rparr>], summary = []\<rparr>))) =
     enter_coordinates \<lparr>enter_coordinates = Some (0.2, 0.5), exit_coordinates = None, noObjectCount = 3\<rparr> \<and>
   noObjectCount
     (fst (iteration \<lparr>enter_coordinates = Some (0.2, 0.5), exit_coordinates = None, noObjectCount = 3\<rparr>
        \<lparr>det = [\<lparr>box_x = 0.5, box_y = 0.5, box_w = 0.1, box_h = 0.1\<rparr>], summary = []\<rparr> [])) = 3"
  using
    empty_frame_counter
      [of "\<lparr>det = [], summary = []\<rparr>"
          "\<lparr>enter_coordinates = Some (0.2, 0.5), exit_coordinates = Some (0.5, 0.5), noObjectCount = 9\<rparr>"]
    empty_frame_counter
      [of "\<lparr>det = [], summary = []\<rparr>"
          "\<lparr>enter_coordinates = Some (0.2, 0.5), exit_coordinates = None, noObjectCount = 3\<rparr>"]
    empty_frame_counter
      [of "\<lparr>det = [\<lparr>box_x = 0.5, box_y = 0.5, box_w = 0.1, box_h = 0.1\<rparr>], summary = []\<rparr>"
          "\<lparr>enter_coordinates = Some (0.2, 0.5), exit_coordinates = None, noObjectCount = 3\<rparr>"]
  by (simp add: track_def)

text \<open>
  The counter is read only while an enter anchor is set, and setting one zeroes it: two
  sessions that are \<open>alike\<close> stay alike and start the same dispatches, whatever the
  frames. So the value of the counter that a crossing leaves behind is never seen again.
\<close>

lemma crossing_alike: "alike a b \<Longrightarrow> crossing a = crossing b"
  by (simp add: alike_def crossing_iff)

lemma track_alike: "alike a b \<Longrightarrow> alike (track a d) (track b d)"
  by (auto simp add: alike_def track_def)

lemma tracks_alike: "alike a b \<Longrightarrow> alike (tracks a ds) (tracks b ds)"
proof (induction ds arbitrary: a b)
  case Nil
  then show ?case by simp
next
  case (Cons d ds)
  from Cons.IH [OF track_alike [OF Cons.prems]] show ?case by simp
qed

lemma image_alike:
  assumes "alike a b"
  shows "alike (fst (image a f)) (fst (image b f)) \<and> snd (image a f) = snd (image b f)"
proof (cases "det f = []")
  case True
  then show ?thesis using assms by (simp add: image_empty)
next
  case False
  have t: "alike (tracks a (rev (det f))) (tracks b (rev (det f)))"
    using assms by (rule tracks_alike)
  show ?thesis
  proof (cases "crossing (tracks a (rev (det f)))")
    case True
    then have "crossing (tracks b (rev (det f)))" using crossing_alike [OF t] by simp
    then show ?thesis
      using True t by (simp add: image_fired [OF False] alike_def)
  next
    case False
    then have "\<not> crossing (tracks b (rev (det f)))" using crossing_alike [OF t] by simp
    then show ?thesis
      using False t by (simp add: image_quiet [OF \<open>det f \<noteq> []\<close>])
  qed
qed

lemma images_alike:
  "alike a b \<Longrightarrow>
     alike (fst (images a fs)) (fst (images b fs)) \<and> snd (images a fs) = snd (images b fs)"
proof (induction fs arbitrary: a b)
  case Nil
  then show ?case by simp
next
  case (Cons f fs)
  obtain a1 e1 where ia: "image a f = (a1, e1)" by (cases "image a f")
  obtain b1 e2 where ib: "image b f = (b1, e2)" by (cases "image b f")
  have i: "alike a1 b1 \<and> e1 = e2" using image_alike [OF Cons.prems, of f] by (simp add: ia ib)
  then have "alike (fst (images a1 fs)) (fst (images b1 fs)) \<and> snd (images a1 fs) = snd (images b1 fs)"
    using Cons.IH by blast
  then show ?case using i
    by (cases "images a1 fs"; cases "images b1 fs") (simp add: ia ib)
qed

lemma gap_alike: 
  assumes "alike a b"
  shows "alike (gap a f) (gap b f)"
proof (cases "det f = []")
  case False
  then show ?thesis using assms by (simp add: gap_nonempty)
next
  case True
  show ?thesis
  proof (cases "enter_coordinates a = None")
    case True
    then have "enter_coordinates b = None" using assms by (simp add: alike_def)
    then show ?thesis
      using True assms gap_count [OF \<open>det f = []\<close>, of a] gap_count [OF \<open>det f = []\<close>, of b]
      by (simp add: alike_def)
  next
    case False
    then have c: "noObjectCount a = noObjectCount b" and e: "enter_coordinates b \<noteq> None"
      using assms by (auto simp add: alike_def)
    show ?thesis
    proof (cases "10 \<le> noObjectCount a + 1")
      case True
      then show ?thesis
        using False e c gap_reset [OF \<open>det f = []\<close>, of a] gap_reset [OF \<open>det f = []\<close>, of b]
        by (simp add: alike_def)
    next
      case False
      then show ?thesis
        using c assms gap_count [OF \<open>det f = []\<close>, of a] gap_count [OF \<open>det f = []\<close>, of b]
        by (simp add: alike_def)
    qed
  qed
qed

lemma iteration_alike:
  assumes "alike a b"
  shows "alike (fst (iteration a f fs)) (fst (iteration b f fs)) \<and>
         snd (iteration a f fs) = snd (iteration b f fs)"
proof -
  obtain a1 ea where ia: "images a (f # fs) = (a1, ea)" by (cases "images a (f # fs)")
  obtain b1 eb where ib: "images b (f # fs) = (b1, eb)" by (cases "images b (f # fs)")
  have i: "alike a1 b1 \<and> ea = eb"
    using images_alike [OF assms, of "f # fs"] by (simp only: ia ib fst_conv snd_conv)
  then have "alike (gap a1 (last (f # fs))) (gap b1 (last (f # fs)))"
    using gap_alike by blast
  then show ?thesis using i by (simp only: iteration_def ia ib prod.case fst_conv snd_conv simp_thms)
qed

lemma counter_after_crossing_unobserved:
  "alike (st\<lparr>enter_coordinates := None, exit_coordinates := None\<rparr>)
         (st\<lparr>enter_coordinates := None, exit_coordinates := None, noObjectCount := 0\<rparr>)"
  by (simp add: alike_def)

text \<open>
  C7. The claim is that a crossing resets the whole session, the counter included. Lines
  203 and 204 unset the two anchors only. After a frame that sets the enter anchor and
  one empty frame, a frame whose detection is at \<open>x = 0.85\<close> starts a dispatch and leaves
  \<^verbatim>\<open>noObjectCount\<close> at 1.
\<close>

theorem crossing_keeps_counter_counterexample:
  "snd (iteration
          (run init_session
             [(\<lparr>det = [\<lparr>box_x = 0.2, box_y = 0.5, box_w = 0.1, box_h = 0.1\<rparr>], summary = []\<rparr>, []),
              (\<lparr>det = [], summary = []\<rparr>, [])])
          \<lparr>det = [\<lparr>box_x = 0.85, box_y = 0.5, box_w = 0.1, box_h = 0.1\<rparr>], summary = []\<rparr> []) \<noteq> [] \<and>
   noObjectCount
     (fst (iteration
          (run init_session
             [(\<lparr>det = [\<lparr>box_x = 0.2, box_y = 0.5, box_w = 0.1, box_h = 0.1\<rparr>], summary = []\<rparr>, []),
              (\<lparr>det = [], summary = []\<rparr>, [])])
          \<lparr>det = [\<lparr>box_x = 0.85, box_y = 0.5, box_w = 0.1, box_h = 0.1\<rparr>], summary = []\<rparr> [])) = 1"
  by (simp add: iteration_def image_def gap_def track_def crossing_def init_session_def)

text \<open>
  C7, as the code has it. Whenever a frame starts a dispatch, both anchors are unset at
  the end of the frame and \<^verbatim>\<open>noObjectCount\<close> keeps the value the frame's detections left
  it: the crossing does not touch the counter.
\<close>

theorem crossing_clears_anchors_only:
  "snd (iteration st f []) \<noteq> [] \<longrightarrow>
     enter_coordinates (fst (iteration st f [])) = None \<and>
     exit_coordinates (fst (iteration st f [])) = None \<and>
     noObjectCount (fst (iteration st f [])) = noObjectCount (tracks st (rev (det f)))"
  using fired_state(1) [of st f] by simp

theorem crossing_clears_anchors_only_witness:
  "snd (iteration \<lparr>enter_coordinates = Some (0.2, 0.5), exit_coordinates = None, noObjectCount = 1\<rparr>
          \<lparr>det = [\<lparr>box_x = 0.85, box_y = 0.5, box_w = 0.1, box_h = 0.1\<rparr>], summary = []\<rparr> []) \<noteq> [] \<and>
   enter_coordinates
     (fst (iteration \<lparr>enter_coordinates = Some (0.2, 0.5), exit_coordinates = None, noObjectCount = 1\<rparr>
          \<lparr>det = [\<lparr>box_x = 0.85, box_y = 0.5, box_w = 0.1, box_h = 0.1\<rparr>], summary = []\<rparr> [])) = None \<and>
   exit_coordinates
     (fst (iteration \<lparr>enter_coordinates = Some (0.2, 0.5), exit_coordinates = None, noObjectCount = 1\<rparr>
          \<lparr>det = [\<lparr>box_x = 0.85, box_y = 0.5, box_w = 0.1, box_h = 0.1\<rparr>], summary = []\<rparr> [])) = None \<and>
   noObjectCount
     (fst (iteration \<lparr>enter_coordinates = Some (0.2, 0.5), exit_coordinates = None, noObjectCount = 1\<rparr>
          \<lparr>det = [\<lparr>box_x = 0.85, box_y = 0.5, box_w = 0.1, box_h = 0.1\<rparr>], summary = []\<rparr> [])) = 1"
proof -
  have fired:
    "snd (iteration \<lparr>enter_coordinates = Some (0.2, 0.5), exit_coordinates = None, noObjectCount = 1\<rparr>
          \<lparr>det = [\<lparr>box_x = 0.85, box_y = 0.5, box_w = 0.1, box_h = 0.1\<rparr>], summary = []\<rparr> []) \<noteq> []"
    by (simp add: iteration_def image_def gap_def track_def crossing_def)
  show ?thesis
    using fired crossing_clears_anchors_only
      [of "\<lparr>enter_coordinates = Some (0.2, 0.5), exit_coordinates = None, noObjectCount = 1\<rparr>"
          "\<lparr>det = [\<lparr>box_x = 0.85, box_y = 0.5, box_w = 0.1, box_h = 0.1\<rparr>], summary = []\<rparr>"]
    by (simp add: track_def)
qed

section \<open>Properties of the dispatcher\<close>

lemma remove_plural_word_cases:
  "remove_plural_word word =
     (if word \<in> set items_to_check \<and> \<not> endswith word (str ''ss'') then word else butlast word)"
  by (simp add: remove_plural_word_def)

lemma allow_list_unchanged: "word \<in> set items_to_check \<Longrightarrow> remove_plural_word word = word"
  by (auto simp add: remove_plural_word_def items_to_check_def endswith_def str_def)

lemma send_request_item_name:
  assumes "re_search Nd pattern s = Some (Some result)"
  shows "Post url \<lparr>cashierId = cashier_id, itemName = result\<rparr> headers
           \<in> set (fst (send_request Nd url headers cashier_id s response))"
  using assms by (cases response) (simp_all add: send_request_def Let_def)

lemma no_colon_no_match:
  assumes "58 \<notin> set s"
  shows "re_search Nd pattern s = None"
  using assms
proof (induction s)
  case Nil
  show ?case by (simp add: pattern_def)
next
  case (Cons c cs)
  have "match_here Nd pattern (c # cs) None = []"
    using Cons.prems by (cases cs) (simp_all add: pattern_def)
  then show ?case using Cons by simp
qed

text \<open>
  C10. When \<^verbatim>\<open>re.search\<close> finds no match of the pattern in the summary,
  \<^verbatim>\<open>send_request\<close> prints nothing, posts nothing and returns without an exception,
  whatever the table of decimal digits and whatever the backend would answer.
\<close>

theorem no_match_no_post:
  "re_search Nd pattern s = None \<longrightarrow>
     send_request Nd url headers cashier_id s response = ([], None)"
  by (simp add: send_request_def)

theorem no_match_no_post_witness:
  "re_search ascii_decimal pattern (str ''image 1/1 /data/a.jpg: 384x640 1 Rexona Roll On, '') = None \<and>
   send_request ascii_decimal (str ''https://recognition-items-backend.up.railway.app/item/decrease'')
     [(str ''Authorization'', str ''Bearer t'')] 7
     (str ''image 1/1 /data/a.jpg: 384x640 1 Rexona Roll On, '')
     (Some \<lparr>status_code = 200, response_text = []\<rparr>) = ([], None)"
proof -
  have none:
    "re_search ascii_decimal pattern (str ''image 1/1 /data/a.jpg: 384x640 1 Rexona Roll On, '') = None"
    by (simp add: pattern_def str_def ascii_decimal_def unicode_space_def)
  show ?thesis
    using none no_match_no_post
      [of ascii_decimal "str ''image 1/1 /data/a.jpg: 384x640 1 Rexona Roll On, ''"
          "str ''https://recognition-items-backend.up.railway.app/item/decrease''"
          "[(str ''Authorization'', str ''Bearer t'')]" 7
          "Some \<lparr>status_code = 200, response_text = []\<rparr>"]
    by blast
qed

text \<open>
  C5. The claim is that the \<^verbatim>\<open>itemName\<close> of the POST body is the name after plural
  normalisation. \<^verbatim>\<open>remove_plural\<close> rebinds its own local variable and returns
  nothing, and \<^verbatim>\<open>send_request\<close> drops the value of the call: on the summary of a frame
  with two detections of the class Rexona Roll On, the body carries
  \<^verbatim>\<open>Rexona Roll Ons\<close>, while the local variable of \<^verbatim>\<open>remove_plural\<close> ends as
  \<^verbatim>\<open>Rexona Roll On\<close>.
\<close>

theorem item_name_not_normalised:
  "send_request ascii_decimal (str ''https://recognition-items-backend.up.railway.app/item/decrease'')
     [(str ''Authorization'', str ''Bearer t'')] 7
     (str ''0: 384x512 2 Rexona Roll Ons, '')
     (Some \<lparr>status_code = 200, response_text = []\<rparr>) =
     ([Print (str ''Rexona Roll Ons is detected. Sending request...''),
       Post (str ''https://recognition-items-backend.up.railway.app/item/decrease'')
         \<lparr>cashierId = 7, itemName = str ''Rexona Roll Ons''\<rparr>
         [(str ''Authorization'', str ''Bearer t'')],
       Print (str ''Stock is decreased successfully.'')], None) \<and>
   remove_plural_word (str ''Rexona Roll Ons'') = str ''Rexona Roll On'' \<and>
   remove_plural (str ''Rexona Roll Ons'') = None"
  by (simp add: send_request_def remove_plural_def remove_plural_word_def items_to_check_def
      endswith_def pattern_def str_def ascii_decimal_def unicode_space_def)

section \<open>Properties of the resolver\<close>

lemma findProductIndex_from_none:
  "0 \<le> i \<Longrightarrow> (findProductIndex_from i ps name = - 1) = (name \<notin> set (map productName ps))"
proof (induction ps arbitrary: i)
  case Nil
  show ?case by simp
next
  case (Cons p ps)
  have "0 \<le> i + 1" using Cons.prems by simp
  from Cons.IH [OF this] show ?case using Cons.prems by auto
qed

lemma findProductIndex_from_range:
  "findProductIndex_from i ps name \<noteq> - 1 \<Longrightarrow> 0 \<le> i \<Longrightarrow>
     i \<le> findProductIndex_from i ps name \<and>
     findProductIndex_from i ps name < i + int (length ps) \<and>
     productName (ps ! nat (findProductIndex_from i ps name - i)) = name"
proof (induction ps arbitrary: i)
  case Nil
  then show ?case by simp
next
  case (Cons p ps)
  show ?case
  proof (cases "productName p = name")
    case True
    then show ?thesis by simp
  next
    case False
    have ne: "findProductIndex_from (i + 1) ps name \<noteq> - 1" using Cons.prems(1) False by simp
    have "0 \<le> i + 1" using Cons.prems(2) by simp
    from Cons.IH [OF ne this]
    have ih: "i + 1 \<le> findProductIndex_from (i + 1) ps name \<and>
       findProductIndex_from (i + 1) ps name < i + 1 + int (length ps) \<and>
       productName (ps ! nat (findProductIndex_from (i + 1) ps name - (i + 1))) = name" .
    then have "nat (findProductIndex_from (i + 1) ps name - i) =
        Suc (nat (findProductIndex_from (i + 1) ps name - (i + 1)))" by arith
    then show ?thesis using False ih by simp
  qed
qed

lemma productName_set_product: "productName (set_product p c t) = productName p"
  by (simp add: set_product_def)

lemma aggregate_names:
  "aggregate fl acc zs = Inr cls \<Longrightarrow> distinct (map productName acc) \<Longrightarrow>
     distinct (map productName cls) \<and>
     set (map productName cls) = set (map productName acc) \<union> fst ` set zs"
proof (induction zs arbitrary: acc)
  case Nil
  then show ?case by simp
next
  case (Cons z zs)
  obtain name p where z: "z = (name, p)" by (cases z)
  obtain v where v: "fl p = Some v"
    using Cons.prems(1) by (cases "fl p") (simp_all add: z)
  show ?case
  proof (cases "findProductIndex acc name = - 1")
    case True
    then have new: "name \<notin> set (map productName acc)"
      using findProductIndex_from_none [of 0 acc name] by (simp add: findProductIndex_def)
    let ?acc = "acc @ [\<lparr>productName = name, count = 1, totalPred = v\<rparr>]"
    have step: "aggregate fl ?acc zs = Inr cls"
      using Cons.prems(1) True by (simp add: z v Let_def)
    have d: "distinct (map productName ?acc)" using Cons.prems(2) new by simp
    from Cons.IH [OF step d] show ?thesis by (auto simp add: z)
  next
    case False
    let ?i = "nat (findProductIndex acc name)"
    have r: "0 \<le> findProductIndex acc name \<and> findProductIndex acc name < int (length acc) \<and>
             productName (acc ! ?i) = name"
      using findProductIndex_from_range [of 0 acc name] False by (simp add: findProductIndex_def)
    let ?acc = "acc[?i := set_product (acc ! ?i) 1 v]"
    have step: "aggregate fl ?acc zs = Inr cls"
      using Cons.prems(1) False by (simp add: z v Let_def)
    have lt: "?i < length acc" using r by linarith
    have "(map productName acc)[?i := map productName acc ! ?i] = map productName acc"
      by (rule list_update_id)
    then have names: "map productName ?acc = map productName acc"
      using lt by (simp add: map_update productName_set_product)
    have d: "distinct (map productName ?acc)" using Cons.prems(2) by (simp only: names)
    have "name \<in> set (map productName acc)"
      using findProductIndex_from_none [of 0 acc name] False by (simp add: findProductIndex_def)
    with Cons.IH [OF step d] show ?thesis by (auto simp add: z names)
  qed
qed

lemma select_labels_length:
  "select_labels fl items = Inr (ps, qs) \<Longrightarrow> length ps = length qs"
proof (induction items arbitrary: ps qs)
  case Nil
  then show ?case by simp
next
  case (Cons item items)
  then show ?case
    by (auto simp add: Let_def split: option.splits sum.splits prod.splits if_splits)
qed

lemma aggregate_length:
  assumes "aggregate fl [] (zip ps qs) = Inr cls" and "length ps = length qs"
  shows "length cls = card (set ps)"
proof -
  have a: "distinct (map productName cls) \<and> set (map productName cls) = fst ` set (zip ps qs)"
    using aggregate_names [OF assms(1)] by simp
  have "fst ` set (zip ps qs) = set ps"
    using assms(2) by (metis map_fst_zip set_map)
  then have "card (set ps) = card (set (map productName cls))" using a by simp
  also have "\<dots> = length (map productName cls)"
    using a by (intro distinct_card) simp
  finally show ?thesis by simp
qed

lemma productDetection_classes:
  assumes "productDetection_locals fl labels = Inr r"
  shows "length (predUniqueCls r) = card (set (products_se r))"
proof -
  obtain ps qs where s: "select_labels fl labels = Inr (ps, qs)"
    using assms by (cases "select_labels fl labels") (auto simp add: productDetection_locals_def)
  obtain cls where a: "aggregate fl [] (zip ps qs) = Inr cls"
    using assms s by (cases "aggregate fl [] (zip ps qs)") (auto simp add: productDetection_locals_def)
  have r: "predUniqueCls r = cls \<and> products_se r = ps"
    using assms s a by (cases "decide cls") (auto simp add: productDetection_locals_def)
  show ?thesis
    using aggregate_length [OF a select_labels_length [OF s]] r by simp
qed

text \<open>
  C2, as the code has it. \<^verbatim>\<open>findMaxTwoClass\<close> is given \<^verbatim>\<open>predUniqueCls\<close>, the list with one
  entry for each class name, so the test of line 382 counts class names. In every run of
  \<^verbatim>\<open>productDetection\<close> that ends without an exception, the early return is taken exactly
  when the labels that passed the confidence filter carry exactly two distinct names,
  however many labels there are; it then gives the first two classes seen, whatever
  their counts.
\<close>

theorem short_circuit_on_two_classes:
  "productDetection_locals fl predictedLabels_se = Inr r \<longrightarrow>
     ((1 < length (predUniqueCls r) \<and> short_circuit (predUniqueCls r)) =
        (card (set (products_se r)) = 2)) \<and>
     (short_circuit (predUniqueCls r) \<longrightarrow> findMaxTwoClass (predUniqueCls r) = (0, 1))"
  using productDetection_classes [of fl predictedLabels_se r]
  by (auto simp add: short_circuit_def findMaxTwoClass_def)


text \<open>
  The values of \<open>round64\<close> that the examples below meet: 0.6 + 0.7 in doubles is
  \<^verbatim>\<open>1.2999999999999998\<close>, one unit in the last place below the double of 1.3, and its
  half is \<^verbatim>\<open>0.6499999999999999\<close>, below the double of 0.65.
\<close>

lemma round64_sum_06_07:
  "round64 (round64 0.6 + round64 0.7) = 5854679515581644 / 2 ^ 52"
  by code_simp

lemma round64_13: "round64 1.3 = 5854679515581645 / 2 ^ 52"
  by code_simp

lemma round64_mean_A: "round64 (5854679515581644 / 2 ^ 52 / 2) = 5854679515581644 / 2 ^ 53"
  by code_simp

lemma round64_065: "round64 0.65 = 5854679515581645 / 2 ^ 53"
  by code_simp

lemma round64_09: "round64 0.9 = 8106479329266893 / 2 ^ 53"
  by code_simp

theorem short_circuit_on_two_classes_witness:
  "productDetection_locals float_decimal [str ''A 0.90'', str ''B 0.80'', str ''B 0.80''] =
     Inr \<lparr>products_se = [str ''A'', str ''B'', str ''B''],
          predictions_se = [str ''0.90'', str ''0.80'', str ''0.80''],
          predUniqueCls =
            [\<lparr>productName = str ''A'', count = 1, totalPred = round64 0.9\<rparr>,
             \<lparr>productName = str ''B'', count = 2,
              totalPred = round64 (round64 0.8 + round64 0.8)\<rparr>],
          maxIndex_se = Some (0, 1), maxName_se = Some (str ''A'')\<rparr> \<and>
   card (set [str ''A'', str ''B'', str ''B'']) = 2 \<and>
   short_circuit
     [\<lparr>productName = str ''A'', count = 1, totalPred = round64 0.9\<rparr>,
      \<lparr>productName = str ''B'', count = 2,
       totalPred = round64 (round64 0.8 + round64 0.8)\<rparr>] \<and>
   findMaxTwoClass
     [\<lparr>productName = str ''A'', count = 1, totalPred = round64 0.9\<rparr>,
      \<lparr>productName = str ''B'', count = 2,
       totalPred = round64 (round64 0.8 + round64 0.8)\<rparr>] = (0, 1)"
proof -
  have run:
    "productDetection_locals float_decimal [str ''A 0.90'', str ''B 0.80'', str ''B 0.80''] =
     Inr \<lparr>products_se = [str ''A'', str ''B'', str ''B''],
          predictions_se = [str ''0.90'', str ''0.80'', str ''0.80''],
          predUniqueCls =
            [\<lparr>productName = str ''A'', count = 1, totalPred = round64 0.9\<rparr>,
             \<lparr>productName = str ''B'', count = 2,
              totalPred = round64 (round64 0.8 + round64 0.8)\<rparr>],
          maxIndex_se = Some (0, 1), maxName_se = Some (str ''A'')\<rparr>"
    by code_simp
  have sc:
    "short_circuit
       [\<lparr>productName = str ''A'', count = 1, totalPred = round64 0.9\<rparr>,
        \<lparr>productName = str ''B'', count = 2,
         totalPred = round64 (round64 0.8 + round64 0.8)\<rparr>]"
    by (simp add: short_circuit_def)
  show ?thesis
    using run sc short_circuit_on_two_classes
      [of float_decimal "[str ''A 0.90'', str ''B 0.80'', str ''B 0.80'']"
          "\<lparr>products_se = [str ''A'', str ''B'', str ''B''],
          predictions_se = [str ''0.90'', str ''0.80'', str ''0.80''],
          predUniqueCls =
            [\<lparr>productName = str ''A'', count = 1, totalPred = round64 0.9\<rparr>,
             \<lparr>productName = str ''B'', count = 2,
              totalPred = round64 (round64 0.8 + round64 0.8)\<rparr>],
          maxIndex_se = Some (0, 1), maxName_se = Some (str ''A'')\<rparr>"]
    by simp
qed

text \<open>
  C2. The claim is that the early return is taken exactly when the buffer holds two
  label samples. A buffer of three samples with two class names takes it: the result is
  (0, 1), where the loop would have given (1, 0). A buffer of two samples of one class
  does not: \<^verbatim>\<open>findMaxTwoClass\<close> is not called at all.
\<close>

theorem short_circuit_counterexample:
  "length [str ''A 0.90'', str ''B 0.80'', str ''B 0.80''] = 3 \<and>
   productDetection_locals float_decimal [str ''A 0.90'', str ''B 0.80'', str ''B 0.80''] =
     Inr \<lparr>products_se = [str ''A'', str ''B'', str ''B''],
          predictions_se = [str ''0.90'', str ''0.80'', str ''0.80''],
          predUniqueCls =
            [\<lparr>productName = str ''A'', count = 1, totalPred = round64 0.9\<rparr>,
             \<lparr>productName = str ''B'', count = 2,
              totalPred = round64 (round64 0.8 + round64 0.8)\<rparr>],
          maxIndex_se = Some (0, 1), maxName_se = Some (str ''A'')\<rparr> \<and>
   short_circuit
     [\<lparr>productName = str ''A'', count = 1, totalPred = round64 0.9\<rparr>,
      \<lparr>productName = str ''B'', count = 2,
       totalPred = round64 (round64 0.8 + round64 0.8)\<rparr>] \<and>
   max_two_loop 0
     [\<lparr>productName = str ''A'', count = 1, totalPred = round64 0.9\<rparr>,
      \<lparr>productName = str ''B'', count = 2,
       totalPred = round64 (round64 0.8 + round64 0.8)\<rparr>] (0, 0, 0, 0) = (1, 0, 2, 0) \<and>
   length [str ''A 0.90'', str ''A 0.80''] = 2 \<and>
   productDetection_locals float_decimal [str ''A 0.90'', str ''A 0.80''] =
     Inr \<lparr>products_se = [str ''A'', str ''A''],
          predictions_se = [str ''0.90'', str ''0.80''],
          predUniqueCls =
            [\<lparr>productName = str ''A'', count = 2,
              totalPred = round64 (round64 0.9 + round64 0.8)\<rparr>],
          maxIndex_se = None, maxName_se = None\<rparr> \<and>
   \<not> short_circuit
       [\<lparr>productName = str ''A'', count = 2,
         totalPred = round64 (round64 0.9 + round64 0.8)\<rparr>]"
  by code_simp

text \<open>
  C6. The claim is that on the buffer A 0.60, A 0.70, B 0.40, B 0.90 (the labels as line
  249 writes them) the resolver finds the sum 1.3 and the mean 0.65 for A and returns B.
  The sum of the doubles 0.6 and 0.7 is \<^verbatim>\<open>1.2999999999999998\<close>, below 1.3 and its double,
  and the mean is \<^verbatim>\<open>0.6499999999999999\<close>, below 0.65 and its double; and the call of
  \<^verbatim>\<open>productDetection\<close> gives \<^verbatim>\<open>None\<close>, not the name.
\<close>

theorem resolver_example_counterexample:
  "productDetection_locals float_decimal
     [str ''A 0.60'', str ''A 0.70'', str ''B 0.40'', str ''B 0.90''] =
     Inr \<lparr>products_se = [str ''A'', str ''A'', str ''B''],
          predictions_se = [str ''0.60'', str ''0.70'', str ''0.90''],
          predUniqueCls =
            [\<lparr>productName = str ''A'', count = 2, totalPred = 5854679515581644 / 2 ^ 52\<rparr>,
             \<lparr>productName = str ''B'', count = 1, totalPred = 8106479329266893 / 2 ^ 53\<rparr>],
          maxIndex_se = Some (0, 1), maxName_se = Some (str ''B'')\<rparr> \<and>
   (5854679515581644 / 2 ^ 52 :: real) < round64 1.3 \<and>
   (5854679515581644 / 2 ^ 52 :: real) < 1.3 \<and>
   getPred \<lparr>productName = str ''A'', count = 2, totalPred = 5854679515581644 / 2 ^ 52\<rparr> =
     Inr (str ''A'', 5854679515581644 / 2 ^ 53) \<and>
   (5854679515581644 / 2 ^ 53 :: real) < round64 0.65 \<and>
   (5854679515581644 / 2 ^ 53 :: real) < 0.65 \<and>
   productDetection float_decimal
     [str ''A 0.60'', str ''A 0.70'', str ''B 0.40'', str ''B 0.90''] = Inr None \<and>
   productDetection float_decimal
     [str ''A 0.60'', str ''A 0.70'', str ''B 0.40'', str ''B 0.90''] \<noteq> Inr (Some (str ''B''))"
  by code_simp

text \<open>
  C6, as the code has it. On the buffer A 0.60, A 0.70, B 0.40, B 0.90 the filter keeps
  A 0.60, A 0.70, B 0.90; the votes are A with count 2 and sum
  \<^verbatim>\<open>1.2999999999999998\<close> (the double sum of 0.6 and 0.7) and B with count 1 and sum 0.9
  (its double); the difference of the counts is 1, not above 3; the means are
  \<^verbatim>\<open>0.6499999999999999\<close> and 0.9, the second the higher; the resolver settles on B, the
  value of its local variable \<^verbatim>\<open>maxName_se\<close>; and the call itself gives \<^verbatim>\<open>None\<close>.
\<close>

theorem resolver_example:
  "productDetection_locals float_decimal
     [str ''A 0.60'', str ''A 0.70'', str ''B 0.40'', str ''B 0.90''] =
     Inr \<lparr>products_se = [str ''A'', str ''A'', str ''B''],
          predictions_se = [str ''0.60'', str ''0.70'', str ''0.90''],
          predUniqueCls =
            [\<lparr>productName = str ''A'', count = 2, totalPred = 5854679515581644 / 2 ^ 52\<rparr>,
             \<lparr>productName = str ''B'', count = 1, totalPred = 8106479329266893 / 2 ^ 53\<rparr>],
          maxIndex_se = Some (0, 1), maxName_se = Some (str ''B'')\<rparr> \<and>
   round64 (round64 0.6 + round64 0.7) = 5854679515581644 / 2 ^ 52 \<and>
   round64 0.9 = 8106479329266893 / 2 ^ 53 \<and>
   count \<lparr>productName = str ''A'', count = 2, totalPred = 5854679515581644 / 2 ^ 52\<rparr> -
     count \<lparr>productName = str ''B'', count = 1, totalPred = 8106479329266893 / 2 ^ 53\<rparr> = 1 \<and>
   getPred \<lparr>productName = str ''A'', count = 2, totalPred = 5854679515581644 / 2 ^ 52\<rparr> =
     Inr (str ''A'', 5854679515581644 / 2 ^ 53) \<and>
   getPred \<lparr>productName = str ''B'', count = 1, totalPred = 8106479329266893 / 2 ^ 53\<rparr> =
     Inr (str ''B'', 8106479329266893 / 2 ^ 53) \<and>
   (5854679515581644 / 2 ^ 53 :: real) < 8106479329266893 / 2 ^ 53 \<and>
   productDetection float_decimal
     [str ''A 0.60'', str ''A 0.70'', str ''B 0.40'', str ''B 0.90''] = Inr None"
  by code_simp

text \<open>
  C3. The claim is that, with more than two class names, the two classes with the
  highest counts are compared. The loop of \<^verbatim>\<open>findMaxTwoClass\<close> does not move the old
  maximum to the second place when it finds a new one. On counts A 1, B 2, C 3 it
  gives the indices (2, 0): C is compared with A, not with B, and the resolver settles
  on C (mean 0.6 against 0.5), where the two highest counts, C and B, differ by 1 and B
  has the higher mean, 0.9.
\<close>

theorem second_place_lost:
  "productDetection_locals float_decimal
     [str ''A 0.50'', str ''B 0.90'', str ''B 0.90'', str ''C 0.60'', str ''C 0.60'', str ''C 0.60''] =
     Inr \<lparr>products_se = [str ''A'', str ''B'', str ''B'', str ''C'', str ''C'', str ''C''],
          predictions_se =
            [str ''0.50'', str ''0.90'', str ''0.90'', str ''0.60'', str ''0.60'', str ''0.60''],
          predUniqueCls =
            [\<lparr>productName = str ''A'', count = 1, totalPred = 0.5\<rparr>,
             \<lparr>productName = str ''B'', count = 2,
              totalPred = round64 (round64 0.9 + round64 0.9)\<rparr>,
             \<lparr>productName = str ''C'', count = 3,
              totalPred = round64 (round64 (round64 0.6 + round64 0.6) + round64 0.6)\<rparr>],
          maxIndex_se = Some (2, 0), maxName_se = Some (str ''C'')\<rparr> \<and>
   findMaxTwoClass
     [\<lparr>productName = str ''A'', count = 1, totalPred = 0.5\<rparr>,
      \<lparr>productName = str ''B'', count = 2,
       totalPred = round64 (round64 0.9 + round64 0.9)\<rparr>,
      \<lparr>productName = str ''C'', count = 3,
       totalPred = round64 (round64 (round64 0.6 + round64 0.6) + round64 0.6)\<rparr>] = (2, 0)"
  by code_simp

end
